theory Spec2Isabelle
  imports Complex_Main
begin

section \<open>Numeric model\<close>

text \<open>
  The program is \<^verbatim>\<open>streamlit_app.py\<close>: a transfer-tax calculator, a mortgage amortizer
  and two scenario simulators. Its numbers are Python floats; they are modelled here by
  exact real arithmetic, so every statement below is a statement about the formulas the
  code evaluates; binary rounding, overflow, infinities and NaN are outside the model.
  Integer arguments that drive loops (\<^verbatim>\<open>term_years\<close>, \<^verbatim>\<open>years\<close>) are Python ints
  and are modelled by \<^typ>\<open>int\<close>.
  Exceptions are values: a function that can raise returns \<open>error + 'a\<close>.
\<close>

datatype error = ZeroDivisionError | KeyError | IndexError

text \<open>
  Python's \<^verbatim>\<open>round(x, 2)\<close> on a float rounds the exact value of \<^verbatim>\<open>x\<close> to the nearest
  multiple of \<^verbatim>\<open>0.01\<close>, ties going to the even neighbour.
\<close>

definition round_half_even :: "real \<Rightarrow> int" where
  "round_half_even x =
     (let f = \<lfloor>x\<rfloor>; d = x - of_int f
      in if d < 1 / 2 then f
         else if 1 / 2 < d then f + 1
         else if even f then f else f + 1)"

definition py_round2 :: "real \<Rightarrow> real" where
  "py_round2 x = of_int (round_half_even (x * 100)) / 100"

section \<open>Transfer tax: \<^verbatim>\<open>calculate_reet\<close>\<close>

text \<open>An upper bound of a bracket; \<open>Infinity\<close> is \<^verbatim>\<open>float('inf')\<close>.\<close>

datatype bound = Finite real | Infinity

definition brackets :: "(bound \<times> real) list" where
  "brackets =
     [(Finite 525000, 11 / 1000), (Finite 1525000, 128 / 10000),
      (Finite 3025000, 275 / 10000), (Infinity, 30 / 1000)]"

text \<open>
  The \<^verbatim>\<open>for limit, rate in brackets\<close> loop, with the loop variables \<^verbatim>\<open>tax\<close> and
  \<^verbatim>\<open>prev_limit\<close> as arguments. \<^verbatim>\<open>purchase_price > float('inf')\<close> is false for every
  price, so an \<open>Infinity\<close> bracket always takes the \<^verbatim>\<open>else\<close> branch and breaks. A loop
  that runs out of brackets falls through to the \<^verbatim>\<open>return\<close>.
\<close>

fun reet_loop :: "real \<Rightarrow> real \<Rightarrow> real \<Rightarrow> (bound \<times> real) list \<Rightarrow> real" where
  "reet_loop purchase_price tax prev_limit [] = tax"
| "reet_loop purchase_price tax prev_limit ((Finite limit, rate) # bs) =
     (if purchase_price > limit
      then reet_loop purchase_price (tax + (limit - prev_limit) * rate) limit bs
      else tax + (purchase_price - prev_limit) * rate)"
| "reet_loop purchase_price tax prev_limit ((Infinity, rate) # bs) =
     tax + (purchase_price - prev_limit) * rate"

definition calculate_reet :: "real \<Rightarrow> real" where
  "calculate_reet purchase_price = py_round2 (reet_loop purchase_price 0 0 brackets)"

section \<open>Mortgage amortizer\<close>

text \<open>
  Float division raises \<^verbatim>\<open>ZeroDivisionError\<close> on a zero divisor, and so does a float
  zero raised to a negative power. The exponents of the program are Python ints.
\<close>

definition py_div :: "real \<Rightarrow> real \<Rightarrow> error + real" where
  "py_div a b = (if b = 0 then Inl ZeroDivisionError else Inr (a / b))"

definition py_pow :: "real \<Rightarrow> int \<Rightarrow> error + real" where
  "py_pow x n =
     (if 0 \<le> n then Inr (x ^ nat n)
      else if x = 0 then Inl ZeroDivisionError
      else Inr (1 / x ^ nat (- n)))"

definition calculate_mortgage_payment :: "real \<Rightarrow> real \<Rightarrow> int \<Rightarrow> error + real" where
  "calculate_mortgage_payment loan_amount annual_rate term_years =
     (let monthly_rate = annual_rate / 12;
          n_payments = term_years * 12
      in case py_pow (1 + monthly_rate) (- n_payments) of
           Inl e \<Rightarrow> Inl e
         | Inr p \<Rightarrow> py_div (loan_amount * monthly_rate) (1 - p))"

text \<open>One row of the schedule; the data frame is the list of its rows.\<close>

record entry =
  Month :: int
  Interest :: real
  Principal :: real
  Remaining_Balance :: real

text \<open>
  The \<^verbatim>\<open>for month in range(1, n_payments + 1)\<close> loop; \<^verbatim>\<open>balance\<close> is the loop
  variable, the rows are produced in order.
\<close>

fun schedule_loop :: "real \<Rightarrow> real \<Rightarrow> real \<Rightarrow> int list \<Rightarrow> entry list" where
  "schedule_loop monthly_rate monthly_payment balance [] = []"
| "schedule_loop monthly_rate monthly_payment balance (month # months) =
     (let interest_payment = balance * monthly_rate;
          principal_payment = monthly_payment - interest_payment;
          balance' = balance - principal_payment
      in \<lparr>Month = month, Interest = interest_payment, Principal = principal_payment,
          Remaining_Balance = balance'\<rparr>
         # schedule_loop monthly_rate monthly_payment balance' months)"

definition calculate_mortgage_schedule :: "real \<Rightarrow> real \<Rightarrow> int \<Rightarrow> error + entry list" where
  "calculate_mortgage_schedule loan_amount annual_rate term_years =
     (let monthly_rate = annual_rate / 12;
          n_payments = term_years * 12
      in case calculate_mortgage_payment loan_amount annual_rate term_years of
           Inl e \<Rightarrow> Inl e
         | Inr monthly_payment \<Rightarrow>
             Inr (schedule_loop monthly_rate monthly_payment loan_amount [1..n_payments]))"

section \<open>Scenario simulators\<close>

text \<open>
  A data frame built from an empty list of rows has no columns, so selecting a column of
  it raises \<^verbatim>\<open>KeyError\<close>. A selection of rows that matches nothing keeps the columns;
  \<^verbatim>\<open>.values[0]\<close> on it raises \<^verbatim>\<open>IndexError\<close>.
\<close>

definition balance_at :: "entry list \<Rightarrow> int \<Rightarrow> error + real" where
  "balance_at schedule m =
     (if schedule = [] then Inl KeyError
      else case filter (\<lambda>e. Month e = m) schedule of
             [] \<Rightarrow> Inl IndexError
           | e # _ \<Rightarrow> Inr (Remaining_Balance e))"

definition year_interest :: "entry list \<Rightarrow> int \<Rightarrow> error + real" where
  "year_interest schedule year =
     (if schedule = [] then Inl KeyError
      else Inr (sum_list (map Interest
             (filter (\<lambda>e. (year - 1) * 12 + 1 \<le> Month e \<and> Month e \<le> year * 12) schedule))))"

text \<open>The \<^verbatim>\<open>for year in range(1, years + 1)\<close> loop of \<^verbatim>\<open>simulate_stay_full\<close>.\<close>

fun stay_loop ::
  "entry list \<Rightarrow> real \<Rightarrow> real \<Rightarrow> real \<Rightarrow> real \<Rightarrow> real list \<Rightarrow> int list \<Rightarrow> error + real list" where
  "stay_loop schedule monthly_pmt annual_tax monthly_ins tax_rate cash_flows [] = Inr cash_flows"
| "stay_loop schedule monthly_pmt annual_tax monthly_ins tax_rate cash_flows (year # ys) =
     (case year_interest schedule year of
        Inl e \<Rightarrow> Inl e
      | Inr interest \<Rightarrow>
          (let mortgage_interest_deduction = interest * tax_rate;
               annual_piti = (monthly_pmt + (annual_tax / 12) + monthly_ins) * 12;
               net_cash_flow = - annual_piti + mortgage_interest_deduction
           in stay_loop schedule monthly_pmt annual_tax monthly_ins tax_rate
                (cash_flows @ [net_cash_flow]) ys))"

text \<open>The last four statements, shared by both simulators.\<close>

definition sale_entry :: "entry list \<Rightarrow> real \<Rightarrow> real \<Rightarrow> int \<Rightarrow> real list \<Rightarrow> error + real list" where
  "sale_entry schedule value appreciation years cash_flows =
     (case py_pow (1 + appreciation) years of
        Inl e \<Rightarrow> Inl e
      | Inr g \<Rightarrow>
          (let appreciated_value = value * g
           in case balance_at schedule (years * 12) of
                Inl e \<Rightarrow> Inl e
              | Inr remaining_balance \<Rightarrow>
                  (let net_sale_proceeds =
                         appreciated_value - remaining_balance - calculate_reet appreciated_value
                   in Inr (cash_flows @ [net_sale_proceeds]))))"

definition simulate_stay_full ::
  "real \<Rightarrow> real \<Rightarrow> real \<Rightarrow> int \<Rightarrow> real \<Rightarrow> real \<Rightarrow> real \<Rightarrow> real \<Rightarrow> int \<Rightarrow> error + real list" where
  "simulate_stay_full home_value mortgage_balance rate term_remaining annual_tax monthly_ins
       appreciation_rate tax_rate years =
     (case calculate_mortgage_payment mortgage_balance rate term_remaining of
        Inl e \<Rightarrow> Inl e
      | Inr monthly_pmt \<Rightarrow>
     (case calculate_mortgage_schedule mortgage_balance rate term_remaining of
        Inl e \<Rightarrow> Inl e
      | Inr schedule \<Rightarrow>
     (case stay_loop schedule monthly_pmt annual_tax monthly_ins tax_rate [- 600000] [1..years] of
        Inl e \<Rightarrow> Inl e
      | Inr cash_flows \<Rightarrow>
          sale_entry schedule home_value appreciation_rate years cash_flows)))"

text \<open>The \<^verbatim>\<open>for _ in range(years)\<close> loop of \<^verbatim>\<open>simulate_home_ownership\<close>.\<close>

fun buy_loop :: "real \<Rightarrow> real \<Rightarrow> real \<Rightarrow> real \<Rightarrow> real list \<Rightarrow> int list \<Rightarrow> real list" where
  "buy_loop monthly_pmt tax ins annual_tax_savings cash_flows [] = cash_flows"
| "buy_loop monthly_pmt tax ins annual_tax_savings cash_flows (i # is) =
     (let annual_piti = (monthly_pmt + tax + ins) * 12
      in buy_loop monthly_pmt tax ins annual_tax_savings
           (cash_flows @ [- annual_piti + annual_tax_savings]) is)"

definition simulate_home_ownership ::
  "real \<Rightarrow> real \<Rightarrow> real \<Rightarrow> real \<Rightarrow> int \<Rightarrow> real \<Rightarrow> int \<Rightarrow> real \<Rightarrow> real \<Rightarrow> real \<Rightarrow> real \<Rightarrow> real \<Rightarrow> int
     \<Rightarrow> error + real list" where
  "simulate_home_ownership purchase_price equity existing_mortgage existing_rate existing_term
       rate term_years tax ins down_pct appreciation tax_rate years =
     (let down_payment = purchase_price * down_pct;
          loan_amount = purchase_price - down_payment
      in case calculate_mortgage_payment loan_amount rate term_years of
           Inl e \<Rightarrow> Inl e
         | Inr monthly_pmt \<Rightarrow>
        (case calculate_mortgage_schedule loan_amount rate term_years of
           Inl e \<Rightarrow> Inl e
         | Inr schedule \<Rightarrow>
             (let reet = calculate_reet purchase_price;
                  closing_costs = purchase_price * (15 / 1000);
                  net_proceeds = equity;
                  cash_flows = [net_proceeds - down_payment - closing_costs - reet];
                  deductible_interest = min 750000 loan_amount * rate;
                  annual_tax_savings = deductible_interest * tax_rate;
                  cash_flows' = buy_loop monthly_pmt tax ins annual_tax_savings cash_flows
                                  [0..years - 1]
              in sale_entry schedule purchase_price appreciation years cash_flows')))"

section \<open>Properties of the transfer tax\<close>

lemma round_half_even_mono: "x \<le> y \<Longrightarrow> round_half_even x \<le> round_half_even y"
proof -
  assume xy: "x \<le> y"
  have fl: "\<lfloor>x\<rfloor> \<le> \<lfloor>y\<rfloor>" using xy by (rule floor_mono)
  show ?thesis
  proof (cases "\<lfloor>x\<rfloor> = \<lfloor>y\<rfloor>")
    case True
    then show ?thesis using xy by (auto simp: round_half_even_def Let_def)
  next
    case False
    then have "\<lfloor>x\<rfloor> + 1 \<le> \<lfloor>y\<rfloor>" using fl by simp
    moreover have "round_half_even x \<le> \<lfloor>x\<rfloor> + 1" by (simp add: round_half_even_def Let_def)
    moreover have "\<lfloor>y\<rfloor> \<le> round_half_even y" by (simp add: round_half_even_def Let_def)
    ultimately show ?thesis by linarith
  qed
qed

lemma py_round2_mono: "x \<le> y \<Longrightarrow> py_round2 x \<le> py_round2 y"
  by (simp add: py_round2_def round_half_even_mono divide_right_mono)

text \<open>The loop over the four brackets, unrolled.\<close>

lemma reet_closed:
  "reet_loop p 0 0 brackets =
     (if p \<le> 525000 then p * (11 / 1000)
      else if p \<le> 1525000 then 5775 + (p - 525000) * (128 / 10000)
      else if p \<le> 3025000 then 18575 + (p - 1525000) * (275 / 10000)
      else 59825 + (p - 3025000) * (30 / 1000))"
  by (simp add: brackets_def)

lemma reet_loop_mono: "p1 \<le> p2 \<Longrightarrow> reet_loop p1 0 0 brackets \<le> reet_loop p2 0 0 brackets"
  unfolding reet_closed by (auto split: if_splits simp: field_simps)

text \<open>
  C1 (as the code has it). The price 1,000,000 lies in the second bracket: the tax is the
  full first slice at 1.10 percent, 5,775, plus the 475,000 above 525,000 at 1.28 percent,
  6,080, rounded to two decimal places. That sum is 11,855.
\<close>

theorem calculate_reet_one_million:
  "calculate_reet 1000000 = 11855
   \<and> calculate_reet 1000000 = py_round2 (525000 * (11 / 1000) + 475000 * (128 / 10000))"
  by (simp add: calculate_reet_def brackets_def py_round2_def round_half_even_def)

text \<open>C1 as stated gives 11,825 for the same call; the code does not return that.\<close>

theorem calculate_reet_one_million_not_11825: "calculate_reet 1000000 \<noteq> 11825"
  by (simp add: calculate_reet_def brackets_def py_round2_def round_half_even_def)

text \<open>
  C8. The transfer tax is monotonically non-decreasing on non-negative prices: a lower
  price never owes more, across bracket boundaries and after the final rounding.
\<close>

theorem calculate_reet_mono:
  assumes "0 \<le> p1" "p1 < p2"
  shows "calculate_reet p1 \<le> calculate_reet p2"
proof -
  have "reet_loop p1 0 0 brackets \<le> reet_loop p2 0 0 brackets"
    using assms(2) by (intro reet_loop_mono) simp
  then show ?thesis
    unfolding calculate_reet_def by (rule py_round2_mono)
qed

theorem calculate_reet_mono_witness:
  "(0::real) \<le> 525000 \<and> (525000::real) < 1525000.50
   \<and> calculate_reet 525000 \<le> calculate_reet 1525000.50"
  using calculate_reet_mono [of 525000 "1525000.50"] by simp

section \<open>Properties of the amortizer\<close>

text \<open>
  C2 (as the code has it). There is no zero-rate case in \<^verbatim>\<open>calculate_mortgage_payment\<close>:
  with an annual rate of exactly 0 the annuity formula is evaluated, its denominator
  \<^verbatim>\<open>1 - 1.0 ** -n\<close> is zero, and the call raises \<^verbatim>\<open>ZeroDivisionError\<close> for every loan
  amount and every term.
\<close>

theorem payment_zero_rate_fails:
  "calculate_mortgage_payment loan_amount 0 term_years = Inl ZeroDivisionError"
  by (simp add: calculate_mortgage_payment_def py_pow_def py_div_def Let_def)

text \<open>C2 as stated: a loan of 1200 over one year at rate 0 would pay 100 a month.\<close>

theorem payment_zero_rate_not_linear:
  "calculate_mortgage_payment 1200 0 1 \<noteq> Inr (1200 / (1 * 12))"
  by (simp add: calculate_mortgage_payment_def py_pow_def py_div_def)

lemma growth_gt_one:
  fixes r :: real
  assumes "0 < r" "0 < n"
  shows "1 < (1 + r) ^ nat n"
  using assms by (intro one_less_power) auto

lemma payment_pos_rate:
  assumes "0 < annual_rate" "0 < term_years"
  shows "calculate_mortgage_payment loan_amount annual_rate term_years =
           Inr (loan_amount * (annual_rate / 12) / (1 - 1 / (1 + annual_rate / 12) ^ nat (term_years * 12)))"
proof -
  have "1 < (1 + annual_rate / 12) ^ nat (term_years * 12)"
    using assms by (intro growth_gt_one) auto
  then have "1 / (1 + annual_rate / 12) ^ nat (term_years * 12) \<noteq> 1"
    by simp
  then show ?thesis
    using assms by (simp add: calculate_mortgage_payment_def py_pow_def py_div_def Let_def)
qed

lemma schedule_loop_length: "length (schedule_loop r p b ms) = length ms"
  by (induction ms arbitrary: b) (simp_all add: Let_def)

lemma schedule_loop_months: "map Month (schedule_loop r p b ms) = ms"
  by (induction ms arbitrary: b) (simp_all add: Let_def)

lemma schedule_loop_Nil: "schedule_loop r p b ms = [] \<longleftrightarrow> ms = []"
  by (cases ms) (simp_all add: Let_def)

lemma schedule_loop_last:
  "ms \<noteq> [] \<Longrightarrow>
   r * Remaining_Balance (last (schedule_loop r p b ms)) =
     r * b * (1 + r) ^ length ms - p * ((1 + r) ^ length ms - 1)"
proof (induction ms arbitrary: b)
  case Nil
  then show ?case by simp
next
  case (Cons m ms)
  show ?case
  proof (cases "ms = []")
    case True
    then show ?thesis by (simp add: Let_def algebra_simps)
  next
    case False
    let ?b' = "b - (p - b * r)"
    let ?q = "(1 + r) ^ length ms"
    have "last (schedule_loop r p b (m # ms)) = last (schedule_loop r p ?b' ms)"
      using False by (simp add: Let_def schedule_loop_Nil)
    then have "r * Remaining_Balance (last (schedule_loop r p b (m # ms))) =
                 r * ?b' * ?q - p * (?q - 1)"
      by (simp only: Cons.IH [OF False])
    also have "\<dots> = r * b * (1 + r) ^ length (m # ms) - p * ((1 + r) ^ length (m # ms) - 1)"
      by (simp add: algebra_simps)
    finally show ?thesis .
  qed
qed

lemma schedule_loop_principal:
  "sum_list (map Principal (schedule_loop r p b ms)) =
     b - (if ms = [] then b else Remaining_Balance (last (schedule_loop r p b ms)))"
proof (induction ms arbitrary: b)
  case Nil
  then show ?case by simp
next
  case (Cons m ms)
  show ?case
    using Cons.IH [of "b - (p - b * r)"]
    by (simp add: Let_def schedule_loop_Nil)
qed

lemma schedule_loop_decreasing:
  assumes "0 < r" "b * r < p"
  shows "(\<forall>e \<in> set (schedule_loop r p b ms). Remaining_Balance e < b \<and> Interest e + Principal e = p)
       \<and> sorted_wrt (\<lambda>x y. y < x) (b # map Remaining_Balance (schedule_loop r p b ms))"
  using assms(2)
proof (induction ms arbitrary: b)
  case Nil
  then show ?case by simp
next
  case (Cons m ms)
  define b' where "b' = b - (p - b * r)"
  define rest where "rest = schedule_loop r p b' ms"
  define row where
    "row = \<lparr>Month = m, Interest = b * r, Principal = p - b * r, Remaining_Balance = b'\<rparr>"
  have lt: "b' < b" using Cons.prems unfolding b'_def by linarith
  then have "b' * r < b * r" using assms(1) by (rule mult_strict_right_mono)
  then have inv: "b' * r < p" using Cons.prems by linarith
  have below: "\<forall>e \<in> set rest. Remaining_Balance e < b' \<and> Interest e + Principal e = p"
    and sorted: "sorted_wrt (\<lambda>x y. y < x) (b' # map Remaining_Balance rest)"
    using Cons.IH [OF inv] unfolding rest_def by blast+
  have unfold: "schedule_loop r p b (m # ms) = row # rest"
    by (simp add: Let_def row_def rest_def b'_def)
  have row: "Remaining_Balance row = b'" "Interest row + Principal row = p"
    by (simp_all add: row_def)
  have rest_lt: "\<forall>e \<in> set rest. Remaining_Balance e < b"
  proof
    fix e assume "e \<in> set rest"
    then have "Remaining_Balance e < b'" using below by blast
    then show "Remaining_Balance e < b" using lt by linarith
  qed
  have "\<forall>e \<in> set (row # rest). Remaining_Balance e < b \<and> Interest e + Principal e = p"
    using rest_lt below row lt by auto
  moreover have "sorted_wrt (\<lambda>x y. y < x) (b # map Remaining_Balance (row # rest))"
    using sorted rest_lt row lt by auto
  ultimately show ?case
    unfolding unfold by blast
qed


lemma payment_bounds:
  fixes loan_amount annual_rate :: real
  assumes "0 < loan_amount" "0 < annual_rate" "0 < term_years"
  shows "loan_amount * (annual_rate / 12)
           < loan_amount * (annual_rate / 12) / (1 - 1 / (1 + annual_rate / 12) ^ nat (term_years * 12))"
proof -
  define q where "q = (1 + annual_rate / 12) ^ nat (term_years * 12)"
  define a where "a = loan_amount * (annual_rate / 12)"
  have q: "1 < q" unfolding q_def using assms by (intro growth_gt_one) auto
  have a: "0 < a" unfolding a_def using assms by simp
  have d: "0 < 1 - 1 / q" "1 - 1 / q < 1" using q by simp_all
  have "a * (1 - 1 / q) < a * 1" using a d by (intro mult_strict_left_mono) auto
  then have "a < a / (1 - 1 / q)" using d by (simp add: pos_less_divide_eq)
  then show ?thesis unfolding a_def q_def .
qed

lemma schedule_pos_rate:
  assumes "0 < annual_rate" "0 < term_years"
  shows "calculate_mortgage_schedule loan_amount annual_rate term_years =
           Inr (schedule_loop (annual_rate / 12)
                  (loan_amount * (annual_rate / 12) / (1 - 1 / (1 + annual_rate / 12) ^ nat (term_years * 12)))
                  loan_amount [1..term_years * 12])"
  by (simp add: calculate_mortgage_schedule_def Let_def payment_pos_rate [OF assms])

lemma final_balance_zero:
  fixes loan_amount annual_rate :: real
  assumes "0 < annual_rate" "0 < term_years"
  shows "Remaining_Balance (last (schedule_loop (annual_rate / 12)
           (loan_amount * (annual_rate / 12) / (1 - 1 / (1 + annual_rate / 12) ^ nat (term_years * 12)))
           loan_amount [1..term_years * 12])) = 0"
proof -
  define r where "r = annual_rate / 12"
  define q where "q = (1 + r) ^ nat (term_years * 12)"
  define p where "p = loan_amount * r / (1 - 1 / q)"
  have q: "1 < q" unfolding q_def r_def using assms by (intro growth_gt_one) auto
  have r: "0 < r" unfolding r_def using assms(1) by simp
  have ne: "[1..term_years * 12] \<noteq> []" using assms(2) by simp
  have len: "length [1..term_years * 12] = nat (term_years * 12)" by simp
  have p: "p * (q - 1) = loan_amount * r * q"
  proof -
    have "p = loan_amount * r * q / (q - 1)"
      unfolding p_def using q by (simp add: field_simps)
    then show ?thesis using q by simp
  qed
  have "r * Remaining_Balance (last (schedule_loop r p loan_amount [1..term_years * 12])) =
          r * loan_amount * q - p * (q - 1)"
    unfolding q_def using schedule_loop_last [OF ne, of r p loan_amount] by (simp only: len)
  also have "\<dots> = 0" using p by (simp add: mult.commute mult.left_commute)
  finally have "Remaining_Balance (last (schedule_loop r p loan_amount [1..term_years * 12])) = 0"
    using r by simp
  then show ?thesis unfolding p_def q_def r_def .
qed

text \<open>
  C5. For a positive loan, a positive annual rate and a positive term the schedule is
  returned, has one row per month, its principal payments add up to the original loan
  amount and the remaining balance of its last row is zero (in exact arithmetic).
\<close>

theorem schedule_repays_loan:
  assumes "0 < loan_amount" "0 < annual_rate" "0 < term_years"
  shows "\<exists>schedule. calculate_mortgage_schedule loan_amount annual_rate term_years = Inr schedule
           \<and> int (length schedule) = term_years * 12
           \<and> sum_list (map Principal schedule) = loan_amount
           \<and> Remaining_Balance (last schedule) = 0"
proof -
  define schedule where "schedule = schedule_loop (annual_rate / 12)
      (loan_amount * (annual_rate / 12) / (1 - 1 / (1 + annual_rate / 12) ^ nat (term_years * 12)))
      loan_amount [1..term_years * 12]"
  have ret: "calculate_mortgage_schedule loan_amount annual_rate term_years = Inr schedule"
    unfolding schedule_def using assms(2,3) by (rule schedule_pos_rate)
  have len: "int (length schedule) = term_years * 12"
    unfolding schedule_def using assms(3) by (simp add: schedule_loop_length)
  have last: "Remaining_Balance (last schedule) = 0"
    unfolding schedule_def using assms(2,3) by (rule final_balance_zero)
  have "[1..term_years * 12] \<noteq> []" using assms(3) by simp
  then have "sum_list (map Principal schedule) = loan_amount - Remaining_Balance (last schedule)"
    unfolding schedule_def by (simp add: schedule_loop_principal)
  then have "sum_list (map Principal schedule) = loan_amount" using last by simp
  then show ?thesis using ret len last by blast
qed

theorem schedule_repays_loan_witness:
  "\<exists>schedule. calculate_mortgage_schedule 400000 (475 / 10000) 24 = Inr schedule
           \<and> int (length schedule) = 24 * 12
           \<and> sum_list (map Principal schedule) = 400000
           \<and> Remaining_Balance (last schedule) = 0"
  using schedule_repays_loan [of 400000 "475 / 10000" 24] by simp

text \<open>
  C6. For a positive loan, a positive rate and a term of at least one year: every row has
  interest plus principal equal to the fixed monthly payment; the balances, starting
  with the loan amount before month 1, are strictly decreasing through the whole
  schedule; and the first row is computed from the original loan amount.
\<close>

theorem schedule_invariants:
  assumes "0 < loan_amount" "0 < annual_rate" "1 \<le> term_years"
  shows "\<exists>monthly_payment schedule.
           calculate_mortgage_payment loan_amount annual_rate term_years = Inr monthly_payment
         \<and> calculate_mortgage_schedule loan_amount annual_rate term_years = Inr schedule
         \<and> (\<forall>e \<in> set schedule. Interest e + Principal e = monthly_payment)
         \<and> sorted_wrt (\<lambda>x y. y < x) (loan_amount # map Remaining_Balance schedule)
         \<and> Interest (hd schedule) = loan_amount * (annual_rate / 12)
         \<and> Remaining_Balance (hd schedule) = loan_amount - Principal (hd schedule)"
proof -
  define r where "r = annual_rate / 12"
  define p where "p = loan_amount * r / (1 - 1 / (1 + r) ^ nat (term_years * 12))"
  define schedule where "schedule = schedule_loop r p loan_amount [1..term_years * 12]"
  have tpos: "0 < term_years" using assms(3) by simp
  have pay: "calculate_mortgage_payment loan_amount annual_rate term_years = Inr p"
    unfolding p_def r_def using assms(2) tpos by (rule payment_pos_rate)
  have ret: "calculate_mortgage_schedule loan_amount annual_rate term_years = Inr schedule"
    unfolding schedule_def p_def r_def using assms(2) tpos by (rule schedule_pos_rate)
  have r: "0 < r" unfolding r_def using assms(2) by simp
  have inv: "loan_amount * r < p"
    unfolding p_def r_def using assms(1,2) tpos by (rule payment_bounds)
  have rows: "\<forall>e \<in> set schedule. Interest e + Principal e = p"
    and dec: "sorted_wrt (\<lambda>x y. y < x) (loan_amount # map Remaining_Balance schedule)"
    using schedule_loop_decreasing [OF r inv, of "[1..term_years * 12]"]
    unfolding schedule_def by blast+
  have "[1..term_years * 12] = 1 # [2..term_years * 12]"
    using tpos by (simp add: upto_rec1)
  then have "schedule = \<lparr>Month = 1, Interest = loan_amount * r, Principal = p - loan_amount * r,
                 Remaining_Balance = loan_amount - (p - loan_amount * r)\<rparr>
               # schedule_loop r p (loan_amount - (p - loan_amount * r)) [2..term_years * 12]"
    unfolding schedule_def by (simp add: Let_def)
  then have first: "Interest (hd schedule) = loan_amount * r"
      "Remaining_Balance (hd schedule) = loan_amount - Principal (hd schedule)"
    by simp_all
  show ?thesis
    using pay ret rows dec first unfolding r_def by blast
qed

theorem schedule_invariants_witness:
  "\<exists>monthly_payment schedule.
           calculate_mortgage_payment 400000 (475 / 10000) 24 = Inr monthly_payment
         \<and> calculate_mortgage_schedule 400000 (475 / 10000) 24 = Inr schedule
         \<and> (\<forall>e \<in> set schedule. Interest e + Principal e = monthly_payment)
         \<and> sorted_wrt (\<lambda>x y. y < x) (400000 # map Remaining_Balance schedule)
         \<and> Interest (hd schedule) = 400000 * ((475 / 10000) / 12)
         \<and> Remaining_Balance (hd schedule) = 400000 - Principal (hd schedule)"
  using schedule_invariants [of 400000 "475 / 10000" 24] by simp

section \<open>Properties of the simulators\<close>

subsection \<open>The schedule as a data frame\<close>

lemma schedule_of_payment:
  assumes "calculate_mortgage_payment loan_amount annual_rate term_years = Inr p"
  shows "calculate_mortgage_schedule loan_amount annual_rate term_years =
           Inr (schedule_loop (annual_rate / 12) p loan_amount [1..term_years * 12])"
  using assms by (simp add: calculate_mortgage_schedule_def Let_def)

lemma schedule_loop_month_set: "Month ` set (schedule_loop r p b ms) = set ms"
proof -
  have "Month ` set (schedule_loop r p b ms) = set (map Month (schedule_loop r p b ms))"
    by simp
  then show ?thesis by (simp only: schedule_loop_months)
qed

lemma balance_at_Inr:
  assumes "balance_at schedule m = Inr x"
  shows "m \<in> Month ` set schedule"
proof -
  have "filter (\<lambda>e. Month e = m) schedule \<noteq> []"
    using assms by (auto simp: balance_at_def split: if_splits list.splits)
  then obtain e where "e \<in> set schedule" "Month e = m"
    by (auto simp: filter_empty_conv)
  then show ?thesis by blast
qed

lemma balance_at_found:
  assumes "m \<in> Month ` set schedule"
  shows "\<exists>x. balance_at schedule m = Inr x"
proof -
  obtain e where e: "e \<in> set schedule" "Month e = m" using assms by blast
  then have "filter (\<lambda>e. Month e = m) schedule \<noteq> []"
    by (auto simp: filter_empty_conv)
  moreover have "schedule \<noteq> []" using e by auto
  ultimately show ?thesis
    by (auto simp: balance_at_def split: list.splits)
qed

lemma balance_at_missing:
  assumes "schedule \<noteq> []" "m \<notin> Month ` set schedule"
  shows "balance_at schedule m = Inl IndexError"
proof -
  have "filter (\<lambda>e. Month e = m) schedule = []"
    using assms(2) by (auto simp: filter_empty_conv)
  then show ?thesis using assms(1) by (simp add: balance_at_def)
qed

lemma sale_entry_Inr:
  assumes "sale_entry schedule v a years cash_flows = Inr out"
  shows "years * 12 \<in> Month ` set schedule \<and> length out = length cash_flows + 1"
  using assms
  by (auto simp: sale_entry_def Let_def split: sum.splits dest: balance_at_Inr)

lemma sale_entry_found:
  assumes "0 \<le> years" "years * 12 \<in> Month ` set schedule"
  shows "\<exists>x. sale_entry schedule v a years cash_flows = Inr (cash_flows @ [x])"
proof -
  obtain b where "balance_at schedule (years * 12) = Inr b"
    using balance_at_found [OF assms(2)] by blast
  then show ?thesis
    using assms(1) by (simp add: sale_entry_def py_pow_def Let_def)
qed

lemma sale_entry_missing:
  assumes "0 \<le> years" "schedule \<noteq> []" "years * 12 \<notin> Month ` set schedule"
  shows "sale_entry schedule v a years cash_flows = Inl IndexError"
  using assms(1) balance_at_missing [OF assms(2,3)]
  by (simp add: sale_entry_def py_pow_def Let_def)

subsection \<open>The yearly loops\<close>

lemma stay_loop_Inr:
  assumes "stay_loop schedule monthly_pmt annual_tax monthly_ins tax_rate cash_flows ys = Inr out"
  shows "\<exists>zs. out = cash_flows @ zs \<and> length zs = length ys"
  using assms
proof (induction ys arbitrary: cash_flows)
  case Nil
  then show ?case by simp
next
  case (Cons y ys)
  from Cons.prems obtain x where
    "stay_loop schedule monthly_pmt annual_tax monthly_ins tax_rate (cash_flows @ [x]) ys = Inr out"
    by (cases "year_interest schedule y") (simp_all add: Let_def)
  from Cons.IH [OF this] obtain zs where "out = (cash_flows @ [x]) @ zs" "length zs = length ys"
    by blast
  then have "out = cash_flows @ (x # zs) \<and> length (x # zs) = length (y # ys)"
    by simp
  then show ?case by blast
qed

lemma stay_loop_runs:
  assumes "schedule \<noteq> []"
  shows "\<exists>out. stay_loop schedule monthly_pmt annual_tax monthly_ins tax_rate cash_flows ys = Inr out"
proof (induction ys arbitrary: cash_flows)
  case Nil
  then show ?case by simp
next
  case (Cons y ys)
  then show ?case using assms by (simp add: year_interest_def Let_def)
qed

lemma buy_loop_eq:
  "buy_loop monthly_pmt tax ins annual_tax_savings cash_flows is =
     cash_flows @ replicate (length is) (- ((monthly_pmt + tax + ins) * 12) + annual_tax_savings)"
proof (induction "is" arbitrary: cash_flows)
  case Nil
  then show ?case by simp
next
  case (Cons i "is")
  show ?case
    by (simp add: Let_def Cons.IH replicate_append_same)
qed

lemma schedule_month_set:
  "Month ` set (schedule_loop r p b [1..term_years * 12]) = {1..term_years * 12}"
  by (simp add: schedule_loop_month_set)

lemma years_in_schedule:
  "years * 12 \<in> Month ` set (schedule_loop r p b [1..term_years * 12])
     \<longleftrightarrow> 1 \<le> years \<and> years \<le> term_years"
  unfolding schedule_month_set by auto

lemma length_years: "length [1..years] = nat years" "length [0..years - 1] = nat years"
  by simp_all

subsection \<open>When the simulators return\<close>

text \<open>
  Both simulators return exactly when the payment is defined and the month
  \<^verbatim>\<open>years * 12\<close> is a row of the schedule, that is when \<open>1 \<le> years \<le> term\<close>.
\<close>

lemma stay_Inr:
  assumes "simulate_stay_full home_value mortgage_balance rate term_remaining annual_tax
             monthly_ins appreciation_rate tax_rate years = Inr cfs"
  shows "1 \<le> years \<and> years \<le> term_remaining \<and> int (length cfs) = years + 2
         \<and> cfs ! 0 = - 600000"
proof -
  from assms obtain p schedule cash_flows where
    p: "calculate_mortgage_payment mortgage_balance rate term_remaining = Inr p" and
    s: "calculate_mortgage_schedule mortgage_balance rate term_remaining = Inr schedule" and
    l: "stay_loop schedule p annual_tax monthly_ins tax_rate [- 600000] [1..years] = Inr cash_flows" and
    e: "sale_entry schedule home_value appreciation_rate years cash_flows = Inr cfs"
    by (auto simp: simulate_stay_full_def split: sum.splits)
  have sched: "schedule = schedule_loop (rate / 12) p mortgage_balance [1..term_remaining * 12]"
    using s by (simp add: schedule_of_payment [OF p])
  have "years * 12 \<in> Month ` set schedule" and len: "length cfs = length cash_flows + 1"
    using sale_entry_Inr [OF e] by simp_all
  then have range: "1 \<le> years \<and> years \<le> term_remaining"
    unfolding sched by (simp only: years_in_schedule)
  obtain zs where zs: "cash_flows = [- 600000] @ zs" "length zs = length [1..years]"
    using stay_loop_Inr [OF l] by blast
  obtain x where x: "cfs = cash_flows @ [x]"
    using e by (auto simp: sale_entry_def Let_def split: sum.splits)
  have "int (length cfs) = years + 2"
    using len zs range by (simp add: length_years)
  moreover have "cfs ! 0 = - 600000"
    using x zs by simp
  ultimately show ?thesis using range by blast
qed

lemma stay_returns:
  assumes "calculate_mortgage_payment mortgage_balance rate term_remaining = Inr p"
      and "1 \<le> years" "years \<le> term_remaining"
  shows "\<exists>cfs. simulate_stay_full home_value mortgage_balance rate term_remaining annual_tax
             monthly_ins appreciation_rate tax_rate years = Inr cfs"
proof -
  define schedule where
    "schedule = schedule_loop (rate / 12) p mortgage_balance [1..term_remaining * 12]"
  have s: "calculate_mortgage_schedule mortgage_balance rate term_remaining = Inr schedule"
    unfolding schedule_def by (rule schedule_of_payment [OF assms(1)])
  have "[1..term_remaining * 12] \<noteq> []" using assms(2,3) by simp
  then have ne: "schedule \<noteq> []" unfolding schedule_def by (simp add: schedule_loop_Nil)
  obtain cash_flows where
    l: "stay_loop schedule p annual_tax monthly_ins tax_rate [- 600000] [1..years] = Inr cash_flows"
    using stay_loop_runs [OF ne] by blast
  have "years * 12 \<in> Month ` set schedule"
    unfolding schedule_def using assms(2,3) by (simp only: years_in_schedule)
  moreover have "0 \<le> years" using assms(2) by simp
  ultimately obtain x where
    "sale_entry schedule home_value appreciation_rate years cash_flows = Inr (cash_flows @ [x])"
    using sale_entry_found by blast
  then show ?thesis
    by (simp add: simulate_stay_full_def assms(1) s l)
qed

lemma stay_exceeds_term:
  assumes "calculate_mortgage_payment mortgage_balance rate term_remaining = Inr p"
      and "1 \<le> term_remaining" "term_remaining < years"
  shows "simulate_stay_full home_value mortgage_balance rate term_remaining annual_tax
             monthly_ins appreciation_rate tax_rate years = Inl IndexError"
proof -
  define schedule where
    "schedule = schedule_loop (rate / 12) p mortgage_balance [1..term_remaining * 12]"
  have s: "calculate_mortgage_schedule mortgage_balance rate term_remaining = Inr schedule"
    unfolding schedule_def by (rule schedule_of_payment [OF assms(1)])
  have "[1..term_remaining * 12] \<noteq> []" using assms(2) by simp
  then have ne: "schedule \<noteq> []" unfolding schedule_def by (simp add: schedule_loop_Nil)
  obtain cash_flows where
    l: "stay_loop schedule p annual_tax monthly_ins tax_rate [- 600000] [1..years] = Inr cash_flows"
    using stay_loop_runs [OF ne] by blast
  have "years * 12 \<notin> Month ` set schedule"
    unfolding schedule_def using assms(3) by (simp only: years_in_schedule) simp
  moreover have "0 \<le> years" using assms(2,3) by simp
  ultimately have
    "sale_entry schedule home_value appreciation_rate years cash_flows = Inl IndexError"
    using ne by (intro sale_entry_missing)
  then show ?thesis
    by (simp add: simulate_stay_full_def assms(1) s l)
qed

lemma stay_fails:
  assumes "years < 1 \<or> term_remaining < years"
  shows "\<exists>e. simulate_stay_full home_value mortgage_balance rate term_remaining annual_tax
             monthly_ins appreciation_rate tax_rate years = Inl e"
proof (cases "simulate_stay_full home_value mortgage_balance rate term_remaining annual_tax
             monthly_ins appreciation_rate tax_rate years")
  case (Inl e)
  then show ?thesis by blast
next
  case (Inr cfs)
  then show ?thesis using stay_Inr [OF Inr] assms by linarith
qed

lemma buy_Inr:
  assumes "simulate_home_ownership purchase_price equity existing_mortgage existing_rate
             existing_term rate term_years tax ins down_pct appreciation tax_rate years = Inr cfs"
  shows "\<exists>p x. calculate_mortgage_payment (purchase_price - purchase_price * down_pct) rate term_years
                 = Inr p
           \<and> 1 \<le> years \<and> years \<le> term_years
           \<and> cfs = (equity - purchase_price * down_pct - purchase_price * (15 / 1000)
                      - calculate_reet purchase_price)
                   # replicate (nat years)
                       (- ((p + tax + ins) * 12)
                        + min 750000 (purchase_price - purchase_price * down_pct) * rate * tax_rate)
                   @ [x]"
proof -
  define loan_amount where "loan_amount = purchase_price - purchase_price * down_pct"
  define first where "first = equity - purchase_price * down_pct - purchase_price * (15 / 1000)
                      - calculate_reet purchase_price"
  from assms obtain p schedule where
    p: "calculate_mortgage_payment loan_amount rate term_years = Inr p" and
    s: "calculate_mortgage_schedule loan_amount rate term_years = Inr schedule" and
    e: "sale_entry schedule purchase_price appreciation years
          (buy_loop p tax ins (min 750000 loan_amount * rate * tax_rate) [first] [0..years - 1])
          = Inr cfs"
    unfolding loan_amount_def first_def
    by (auto simp: simulate_home_ownership_def Let_def split: sum.splits)
  have sched: "schedule = schedule_loop (rate / 12) p loan_amount [1..term_years * 12]"
    using s by (simp add: schedule_of_payment [OF p])
  have "years * 12 \<in> Month ` set schedule"
    using sale_entry_Inr [OF e] by simp
  then have range: "1 \<le> years \<and> years \<le> term_years"
    unfolding sched by (simp only: years_in_schedule)
  obtain x where "cfs =
      buy_loop p tax ins (min 750000 loan_amount * rate * tax_rate) [first] [0..years - 1] @ [x]"
    using e by (auto simp: sale_entry_def Let_def split: sum.splits)
  then have "cfs = first # replicate (nat years)
                 (- ((p + tax + ins) * 12) + min 750000 loan_amount * rate * tax_rate) @ [x]"
    by (simp add: buy_loop_eq length_years)
  then show ?thesis
    using p range unfolding loan_amount_def first_def by blast
qed

lemma buy_returns:
  assumes "calculate_mortgage_payment (purchase_price - purchase_price * down_pct) rate term_years
             = Inr p"
      and "1 \<le> years" "years \<le> term_years"
  shows "\<exists>cfs. simulate_home_ownership purchase_price equity existing_mortgage existing_rate
             existing_term rate term_years tax ins down_pct appreciation tax_rate years = Inr cfs"
proof -
  define loan_amount where "loan_amount = purchase_price - purchase_price * down_pct"
  define schedule where
    "schedule = schedule_loop (rate / 12) p loan_amount [1..term_years * 12]"
  have p: "calculate_mortgage_payment loan_amount rate term_years = Inr p"
    unfolding loan_amount_def by (rule assms(1))
  have s: "calculate_mortgage_schedule loan_amount rate term_years = Inr schedule"
    unfolding schedule_def by (rule schedule_of_payment [OF p])
  have "years * 12 \<in> Month ` set schedule"
    unfolding schedule_def using assms(2,3) by (simp only: years_in_schedule)
  moreover have "0 \<le> years" using assms(2) by simp
  ultimately have "\<exists>x. sale_entry schedule purchase_price appreciation years cash_flows
                        = Inr (cash_flows @ [x])" for cash_flows
    by (rule sale_entry_found [rotated])
  then show ?thesis
    using p s unfolding loan_amount_def
    by (simp add: simulate_home_ownership_def Let_def) blast
qed

lemma buy_exceeds_term:
  assumes "calculate_mortgage_payment (purchase_price - purchase_price * down_pct) rate term_years
             = Inr p"
      and "1 \<le> term_years" "term_years < years"
  shows "simulate_home_ownership purchase_price equity existing_mortgage existing_rate
             existing_term rate term_years tax ins down_pct appreciation tax_rate years
           = Inl IndexError"
proof -
  define loan_amount where "loan_amount = purchase_price - purchase_price * down_pct"
  define schedule where
    "schedule = schedule_loop (rate / 12) p loan_amount [1..term_years * 12]"
  have p: "calculate_mortgage_payment loan_amount rate term_years = Inr p"
    unfolding loan_amount_def by (rule assms(1))
  have s: "calculate_mortgage_schedule loan_amount rate term_years = Inr schedule"
    unfolding schedule_def by (rule schedule_of_payment [OF p])
  have "[1..term_years * 12] \<noteq> []" using assms(2) by simp
  then have ne: "schedule \<noteq> []" unfolding schedule_def by (simp add: schedule_loop_Nil)
  have "years * 12 \<notin> Month ` set schedule"
    unfolding schedule_def using assms(3) by (simp only: years_in_schedule) simp
  moreover have "0 \<le> years" using assms(2,3) by simp
  ultimately have "sale_entry schedule purchase_price appreciation years cash_flows
                     = Inl IndexError" for cash_flows
    using ne by (intro sale_entry_missing)
  then show ?thesis
    using p s unfolding loan_amount_def
    by (simp add: simulate_home_ownership_def Let_def)
qed

lemma buy_fails:
  assumes "years < 1 \<or> term_years < years"
  shows "\<exists>e. simulate_home_ownership purchase_price equity existing_mortgage existing_rate
             existing_term rate term_years tax ins down_pct appreciation tax_rate years = Inl e"
proof (cases "simulate_home_ownership purchase_price equity existing_mortgage existing_rate
             existing_term rate term_years tax ins down_pct appreciation tax_rate years")
  case (Inl e)
  then show ?thesis by blast
next
  case (Inr cfs)
  then show ?thesis using buy_Inr [OF Inr] assms by auto
qed

subsection \<open>What the simulators return\<close>

text \<open>
  The whole list, entry by entry. The row of month \<open>m\<close> is the row at index \<open>m - 1\<close>,
  since the months of the schedule are \<open>1, 2, \<dots>\<close> in order.
\<close>

lemma stay_loop_eq:
  assumes "schedule \<noteq> []"
  shows "stay_loop schedule monthly_pmt annual_tax monthly_ins tax_rate cash_flows ys =
     Inr (cash_flows @ map (\<lambda>year.
            - ((monthly_pmt + annual_tax / 12 + monthly_ins) * 12)
            + sum_list (map Interest
                (filter (\<lambda>e. (year - 1) * 12 + 1 \<le> Month e \<and> Month e \<le> year * 12) schedule))
              * tax_rate) ys)"
proof (induction ys arbitrary: cash_flows)
  case Nil
  then show ?case by simp
next
  case (Cons y ys)
  have "year_interest schedule y = Inr (sum_list (map Interest
          (filter (\<lambda>e. (y - 1) * 12 + 1 \<le> Month e \<and> Month e \<le> y * 12) schedule)))"
    using assms by (simp add: year_interest_def)
  then show ?case
    by (simp add: Let_def Cons.IH)
qed

lemma balance_at_row:
  assumes "map Month schedule = [1..n]" "balance_at schedule m = Inr rb"
  shows "rb = Remaining_Balance (schedule ! nat (m - 1))"
proof -
  from assms(2) obtain e rest where f: "filter (\<lambda>e. Month e = m) schedule = e # rest"
    and rb: "rb = Remaining_Balance e"
    by (auto simp: balance_at_def split: if_splits list.splits)
  from f obtain us vs where s: "schedule = us @ e # vs" and m: "Month e = m"
    by (auto simp: filter_eq_Cons_iff)
  have len: "length us < length schedule" unfolding s by simp
  have e: "schedule ! length us = e" unfolding s by simp
  have "length schedule = length [1..n]"
    using assms(1) by (metis length_map)
  then have "length us < length [1..n]" using len by simp
  then have "[1..n] ! length us = 1 + int (length us)"
    by (simp add: nth_upto)
  moreover have "[1..n] ! length us = Month (schedule ! length us)"
    using len assms(1) by (metis nth_map)
  ultimately have "m = 1 + int (length us)" using e m by simp
  then have "nat (m - 1) = length us" by simp
  then show ?thesis using e rb by simp
qed

lemma sale_entry_value:
  assumes "sale_entry schedule v a years cash_flows = Inr out" "0 \<le> years"
  shows "\<exists>rb. balance_at schedule (years * 12) = Inr rb
           \<and> out = cash_flows @ [v * (1 + a) ^ nat years - rb - calculate_reet (v * (1 + a) ^ nat years)]"
  using assms
  by (auto simp: sale_entry_def py_pow_def Let_def split: sum.splits)

lemma stay_value:
  assumes "simulate_stay_full home_value mortgage_balance rate term_remaining annual_tax
             monthly_ins appreciation_rate tax_rate years = Inr cfs"
  shows "\<exists>monthly_pmt schedule.
           calculate_mortgage_payment mortgage_balance rate term_remaining = Inr monthly_pmt
         \<and> calculate_mortgage_schedule mortgage_balance rate term_remaining = Inr schedule
         \<and> cfs = - 600000
               # map (\<lambda>year.
                   - ((monthly_pmt + annual_tax / 12 + monthly_ins) * 12)
                   + sum_list (map Interest
                       (filter (\<lambda>e. (year - 1) * 12 + 1 \<le> Month e \<and> Month e \<le> year * 12)
                          schedule))
                     * tax_rate) [1..years]
               @ [home_value * (1 + appreciation_rate) ^ nat years
                  - Remaining_Balance (schedule ! nat (years * 12 - 1))
                  - calculate_reet (home_value * (1 + appreciation_rate) ^ nat years)]"
proof -
  from assms obtain p schedule cash_flows where
    p: "calculate_mortgage_payment mortgage_balance rate term_remaining = Inr p" and
    s: "calculate_mortgage_schedule mortgage_balance rate term_remaining = Inr schedule" and
    l: "stay_loop schedule p annual_tax monthly_ins tax_rate [- 600000] [1..years] = Inr cash_flows" and
    e: "sale_entry schedule home_value appreciation_rate years cash_flows = Inr cfs"
    by (auto simp: simulate_stay_full_def split: sum.splits)
  have sched: "schedule = schedule_loop (rate / 12) p mortgage_balance [1..term_remaining * 12]"
    using s by (simp add: schedule_of_payment [OF p])
  have months: "map Month schedule = [1..term_remaining * 12]"
    unfolding sched by (rule schedule_loop_months)
  have y: "1 \<le> years" using stay_Inr [OF assms] by simp
  then have "0 \<le> years" by simp
  from sale_entry_value [OF e this] obtain rb where
    rb: "balance_at schedule (years * 12) = Inr rb" and
    c: "cfs = cash_flows @ [home_value * (1 + appreciation_rate) ^ nat years - rb
                  - calculate_reet (home_value * (1 + appreciation_rate) ^ nat years)]"
    by blast
  have rbv: "rb = Remaining_Balance (schedule ! nat (years * 12 - 1))"
    using months rb by (rule balance_at_row)
  have ne: "schedule \<noteq> []" using rb by (auto simp: balance_at_def)
  have "cash_flows = [- 600000] @ map (\<lambda>year.
                   - ((p + annual_tax / 12 + monthly_ins) * 12)
                   + sum_list (map Interest
                       (filter (\<lambda>e. (year - 1) * 12 + 1 \<le> Month e \<and> Month e \<le> year * 12)
                          schedule))
                     * tax_rate) [1..years]"
    using l unfolding stay_loop_eq [OF ne] by simp
  then show ?thesis using p s c rbv by simp
qed

lemma buy_value:
  assumes "simulate_home_ownership purchase_price equity existing_mortgage existing_rate
             existing_term rate term_years tax ins down_pct appreciation tax_rate years = Inr cfs"
  shows "\<exists>monthly_pmt schedule.
           calculate_mortgage_payment (purchase_price - purchase_price * down_pct) rate term_years
             = Inr monthly_pmt
         \<and> calculate_mortgage_schedule (purchase_price - purchase_price * down_pct) rate term_years
             = Inr schedule
         \<and> cfs = (equity - purchase_price * down_pct - purchase_price * (15 / 1000)
                    - calculate_reet purchase_price)
               # replicate (nat years)
                   (- ((monthly_pmt + tax + ins) * 12)
                    + min 750000 (purchase_price - purchase_price * down_pct) * rate * tax_rate)
               @ [purchase_price * (1 + appreciation) ^ nat years
                  - Remaining_Balance (schedule ! nat (years * 12 - 1))
                  - calculate_reet (purchase_price * (1 + appreciation) ^ nat years)]"
proof -
  define loan_amount where "loan_amount = purchase_price - purchase_price * down_pct"
  define first where "first = equity - purchase_price * down_pct - purchase_price * (15 / 1000)
                      - calculate_reet purchase_price"
  from assms obtain p schedule where
    p: "calculate_mortgage_payment loan_amount rate term_years = Inr p" and
    s: "calculate_mortgage_schedule loan_amount rate term_years = Inr schedule" and
    e: "sale_entry schedule purchase_price appreciation years
          (buy_loop p tax ins (min 750000 loan_amount * rate * tax_rate) [first] [0..years - 1])
          = Inr cfs"
    unfolding loan_amount_def first_def
    by (auto simp: simulate_home_ownership_def Let_def split: sum.splits)
  have sched: "schedule = schedule_loop (rate / 12) p loan_amount [1..term_years * 12]"
    using s by (simp add: schedule_of_payment [OF p])
  have months: "map Month schedule = [1..term_years * 12]"
    unfolding sched by (rule schedule_loop_months)
  have "years * 12 \<in> Month ` set schedule"
    using sale_entry_Inr [OF e] by simp
  then have "1 \<le> years"
    unfolding sched by (simp only: years_in_schedule)
  then have "0 \<le> years" by simp
  from sale_entry_value [OF e this] obtain rb where
    rb: "balance_at schedule (years * 12) = Inr rb" and
    c: "cfs = buy_loop p tax ins (min 750000 loan_amount * rate * tax_rate) [first] [0..years - 1]
              @ [purchase_price * (1 + appreciation) ^ nat years - rb
                  - calculate_reet (purchase_price * (1 + appreciation) ^ nat years)]"
    by blast
  have rbv: "rb = Remaining_Balance (schedule ! nat (years * 12 - 1))"
    using months rb by (rule balance_at_row)
  have "cfs = first # replicate (nat years)
                 (- ((p + tax + ins) * 12) + min 750000 loan_amount * rate * tax_rate)
               @ [purchase_price * (1 + appreciation) ^ nat years
                  - Remaining_Balance (schedule ! nat (years * 12 - 1))
                  - calculate_reet (purchase_price * (1 + appreciation) ^ nat years)]"
    unfolding c rbv by (simp add: buy_loop_eq length_years)
  then show ?thesis
    using p s unfolding loan_amount_def first_def by blast
qed

text \<open>
  For a term of at least one year the payment is defined unless the monthly growth factor
  \<open>1 + rate / 12\<close> is \<open>0\<close>, \<open>1\<close> or \<open>-1\<close>.
\<close>

lemma power_one_iff:
  fixes x :: real
  assumes "0 < n" "even n"
  shows "x ^ n = 1 \<longleftrightarrow> x = 1 \<or> x = - 1"
proof
  assume "x ^ n = 1"
  then have "\<bar>x\<bar> ^ n = 1 ^ n" by (simp add: power_abs [symmetric])
  then have "\<bar>x\<bar> = 1" using assms(1) by (intro power_eq_imp_eq_base [of "\<bar>x\<bar>" n 1]) simp_all
  then show "x = 1 \<or> x = - 1" by linarith
next
  assume "x = 1 \<or> x = - 1"
  then show "x ^ n = 1" using assms(2) by auto
qed

lemma payment_defined_iff:
  assumes "1 \<le> term_years"
  shows "(\<exists>p. calculate_mortgage_payment loan_amount annual_rate term_years = Inr p)
           \<longleftrightarrow> annual_rate \<noteq> 0 \<and> annual_rate \<noteq> - 12 \<and> annual_rate \<noteq> - 24"
proof -
  define x where "x = 1 + annual_rate / 12"
  define n where "n = nat (term_years * 12)"
  have n: "0 < n" "even n"
    unfolding n_def using assms by (simp_all add: nat_mult_distrib)
  have neg: "\<not> 0 \<le> - (term_years * 12)" using assms by simp
  have nn: "nat (- (- (term_years * 12))) = n" unfolding n_def by simp
  have pay: "calculate_mortgage_payment loan_amount annual_rate term_years =
          (if x = 0 then Inl ZeroDivisionError
           else if 1 - 1 / x ^ n = 0 then Inl ZeroDivisionError
           else Inr (loan_amount * (annual_rate / 12) / (1 - 1 / x ^ n)))"
    unfolding calculate_mortgage_payment_def py_pow_def py_div_def Let_def x_def [symmetric]
    using neg by (simp only: nn if_False sum.case split: if_splits) simp
  have "(\<exists>p. calculate_mortgage_payment loan_amount annual_rate term_years = Inr p)
          \<longleftrightarrow> x \<noteq> 0 \<and> x ^ n \<noteq> 1"
    unfolding pay by auto
  also have "\<dots> \<longleftrightarrow> x \<noteq> 0 \<and> x \<noteq> 1 \<and> x \<noteq> - 1"
    unfolding power_one_iff [OF n] by blast
  also have "\<dots> \<longleftrightarrow> annual_rate \<noteq> 0 \<and> annual_rate \<noteq> - 12 \<and> annual_rate \<noteq> - 24"
    unfolding x_def by auto
  finally show ?thesis .
qed

lemma stay_returns_iff:
  "(\<exists>cfs. simulate_stay_full home_value mortgage_balance rate term_years annual_tax monthly_ins
            appreciation_rate tax_rate years = Inr cfs)
     \<longleftrightarrow> 1 \<le> years \<and> years \<le> term_years \<and> rate \<noteq> 0 \<and> rate \<noteq> - 12 \<and> rate \<noteq> - 24"
proof
  assume "\<exists>cfs. simulate_stay_full home_value mortgage_balance rate term_years annual_tax
            monthly_ins appreciation_rate tax_rate years = Inr cfs"
  then obtain cfs where c: "simulate_stay_full home_value mortgage_balance rate term_years
            annual_tax monthly_ins appreciation_rate tax_rate years = Inr cfs"
    by blast
  have r: "1 \<le> years" "years \<le> term_years" using stay_Inr [OF c] by simp_all
  then have t: "1 \<le> term_years" by simp
  have "\<exists>p. calculate_mortgage_payment mortgage_balance rate term_years = Inr p"
    using stay_value [OF c] by blast
  then have "rate \<noteq> 0 \<and> rate \<noteq> - 12 \<and> rate \<noteq> - 24"
    unfolding payment_defined_iff [OF t] .
  then show "1 \<le> years \<and> years \<le> term_years \<and> rate \<noteq> 0 \<and> rate \<noteq> - 12 \<and> rate \<noteq> - 24"
    using r by blast
next
  assume a: "1 \<le> years \<and> years \<le> term_years \<and> rate \<noteq> 0 \<and> rate \<noteq> - 12 \<and> rate \<noteq> - 24"
  then have t: "1 \<le> term_years" by simp
  obtain p where "calculate_mortgage_payment mortgage_balance rate term_years = Inr p"
    using a payment_defined_iff [OF t, of mortgage_balance rate] by blast
  then show "\<exists>cfs. simulate_stay_full home_value mortgage_balance rate term_years annual_tax
            monthly_ins appreciation_rate tax_rate years = Inr cfs"
    using a by (intro stay_returns) simp_all
qed

lemma buy_returns_iff:
  "(\<exists>cfs. simulate_home_ownership purchase_price equity existing_mortgage existing_rate
            existing_term rate term_years tax ins down_pct appreciation tax_rate years = Inr cfs)
     \<longleftrightarrow> 1 \<le> years \<and> years \<le> term_years \<and> rate \<noteq> 0 \<and> rate \<noteq> - 12 \<and> rate \<noteq> - 24"
proof
  assume "\<exists>cfs. simulate_home_ownership purchase_price equity existing_mortgage existing_rate
            existing_term rate term_years tax ins down_pct appreciation tax_rate years = Inr cfs"
  then obtain cfs where c: "simulate_home_ownership purchase_price equity existing_mortgage
            existing_rate existing_term rate term_years tax ins down_pct appreciation tax_rate years
            = Inr cfs"
    by blast
  from buy_Inr [OF c] obtain p where
    p: "calculate_mortgage_payment (purchase_price - purchase_price * down_pct) rate term_years
          = Inr p" and
    r: "1 \<le> years" "years \<le> term_years"
    by blast
  have t: "1 \<le> term_years" using r by simp
  have "rate \<noteq> 0 \<and> rate \<noteq> - 12 \<and> rate \<noteq> - 24"
    using p payment_defined_iff [OF t, of "purchase_price - purchase_price * down_pct" rate]
    by blast
  then show "1 \<le> years \<and> years \<le> term_years \<and> rate \<noteq> 0 \<and> rate \<noteq> - 12 \<and> rate \<noteq> - 24"
    using r by blast
next
  assume a: "1 \<le> years \<and> years \<le> term_years \<and> rate \<noteq> 0 \<and> rate \<noteq> - 12 \<and> rate \<noteq> - 24"
  then have t: "1 \<le> term_years" by simp
  obtain p where
    "calculate_mortgage_payment (purchase_price - purchase_price * down_pct) rate term_years = Inr p"
    using a payment_defined_iff [OF t, of "purchase_price - purchase_price * down_pct" rate]
    by blast
  then show "\<exists>cfs. simulate_home_ownership purchase_price equity existing_mortgage existing_rate
            existing_term rate term_years tax ins down_pct appreciation tax_rate years = Inr cfs"
    using a by (intro buy_returns) simp_all
qed

text \<open>
  C3 (as the code has it). Whenever \<^verbatim>\<open>simulate_stay_full\<close> or
  \<^verbatim>\<open>simulate_home_ownership\<close> returns, the cash-flow list has length \<open>years + 2\<close>: the
  upfront entry at index 0, one entry per holding year at the indices \<open>1..years\<close> and the
  sale proceeds at index \<open>years + 1\<close>, each with the value the code computes for it.
  Each simulator returns exactly when \<open>1 \<le> years \<le> term\<close> and the annual rate is none of
  \<open>0\<close>, \<open>-12\<close> and \<open>-24\<close> (the rates at which the payment formula divides by zero); in
  particular for every positive rate with \<open>1 \<le> years \<le> term\<close>. On every other input
  it raises.
\<close>

theorem simulators_length:
  "(simulate_stay_full home_value mortgage_balance rate term_years annual_tax monthly_ins
       appreciation_rate tax_rate years = Inr cfs
      \<longrightarrow> int (length cfs) = years + 2 \<and> cfs ! 0 = - 600000
          \<and> 1 \<le> years \<and> years \<le> term_years
          \<and> (\<exists>monthly_pmt schedule.
                calculate_mortgage_payment mortgage_balance rate term_years = Inr monthly_pmt
              \<and> calculate_mortgage_schedule mortgage_balance rate term_years = Inr schedule
              \<and> cfs = - 600000
                    # map (\<lambda>year.
                        - ((monthly_pmt + annual_tax / 12 + monthly_ins) * 12)
                        + sum_list (map Interest
                            (filter (\<lambda>e. (year - 1) * 12 + 1 \<le> Month e \<and> Month e \<le> year * 12)
                               schedule))
                          * tax_rate) [1..years]
                    @ [home_value * (1 + appreciation_rate) ^ nat years
                       - Remaining_Balance (schedule ! nat (years * 12 - 1))
                       - calculate_reet (home_value * (1 + appreciation_rate) ^ nat years)]))
 \<and> (simulate_home_ownership purchase_price equity existing_mortgage existing_rate existing_term
       rate term_years tax ins down_pct appreciation tax_rate' years = Inr cfs'
      \<longrightarrow> int (length cfs') = years + 2
          \<and> cfs' ! 0 = equity - purchase_price * down_pct - purchase_price * (15 / 1000)
                        - calculate_reet purchase_price
          \<and> 1 \<le> years \<and> years \<le> term_years
          \<and> (\<exists>monthly_pmt schedule.
                calculate_mortgage_payment (purchase_price - purchase_price * down_pct) rate
                  term_years = Inr monthly_pmt
              \<and> calculate_mortgage_schedule (purchase_price - purchase_price * down_pct) rate
                  term_years = Inr schedule
              \<and> cfs' = (equity - purchase_price * down_pct - purchase_price * (15 / 1000)
                          - calculate_reet purchase_price)
                    # replicate (nat years)
                        (- ((monthly_pmt + tax + ins) * 12)
                         + min 750000 (purchase_price - purchase_price * down_pct) * rate * tax_rate')
                    @ [purchase_price * (1 + appreciation) ^ nat years
                       - Remaining_Balance (schedule ! nat (years * 12 - 1))
                       - calculate_reet (purchase_price * (1 + appreciation) ^ nat years)]))
 \<and> ((\<exists>cfs. simulate_stay_full home_value mortgage_balance rate term_years annual_tax
              monthly_ins appreciation_rate tax_rate years = Inr cfs)
      \<longleftrightarrow> 1 \<le> years \<and> years \<le> term_years \<and> rate \<noteq> 0 \<and> rate \<noteq> - 12 \<and> rate \<noteq> - 24)
 \<and> ((\<exists>cfs. simulate_home_ownership purchase_price equity existing_mortgage existing_rate
              existing_term rate term_years tax ins down_pct appreciation tax_rate' years = Inr cfs)
      \<longleftrightarrow> 1 \<le> years \<and> years \<le> term_years \<and> rate \<noteq> 0 \<and> rate \<noteq> - 12 \<and> rate \<noteq> - 24)
 \<and> (0 < rate \<and> 1 \<le> years \<and> years \<le> term_years
      \<longrightarrow> (\<exists>cfs. simulate_stay_full home_value mortgage_balance rate term_years annual_tax
                   monthly_ins appreciation_rate tax_rate years = Inr cfs)
          \<and> (\<exists>cfs. simulate_home_ownership purchase_price equity existing_mortgage existing_rate
                   existing_term rate term_years tax ins down_pct appreciation tax_rate' years
                 = Inr cfs))"
proof -
  have stay: "int (length cfs) = years + 2 \<and> cfs ! 0 = - 600000
          \<and> 1 \<le> years \<and> years \<le> term_years
          \<and> (\<exists>monthly_pmt schedule.
                calculate_mortgage_payment mortgage_balance rate term_years = Inr monthly_pmt
              \<and> calculate_mortgage_schedule mortgage_balance rate term_years = Inr schedule
              \<and> cfs = - 600000
                    # map (\<lambda>year.
                        - ((monthly_pmt + annual_tax / 12 + monthly_ins) * 12)
                        + sum_list (map Interest
                            (filter (\<lambda>e. (year - 1) * 12 + 1 \<le> Month e \<and> Month e \<le> year * 12)
                               schedule))
                          * tax_rate) [1..years]
                    @ [home_value * (1 + appreciation_rate) ^ nat years
                       - Remaining_Balance (schedule ! nat (years * 12 - 1))
                       - calculate_reet (home_value * (1 + appreciation_rate) ^ nat years)])"
    if "simulate_stay_full home_value mortgage_balance rate term_years annual_tax monthly_ins
       appreciation_rate tax_rate years = Inr cfs"
    using stay_Inr [OF that] stay_value [OF that] by blast
  have buy: "int (length cfs') = years + 2
          \<and> cfs' ! 0 = equity - purchase_price * down_pct - purchase_price * (15 / 1000)
                        - calculate_reet purchase_price
          \<and> 1 \<le> years \<and> years \<le> term_years
          \<and> (\<exists>monthly_pmt schedule.
                calculate_mortgage_payment (purchase_price - purchase_price * down_pct) rate
                  term_years = Inr monthly_pmt
              \<and> calculate_mortgage_schedule (purchase_price - purchase_price * down_pct) rate
                  term_years = Inr schedule
              \<and> cfs' = (equity - purchase_price * down_pct - purchase_price * (15 / 1000)
                          - calculate_reet purchase_price)
                    # replicate (nat years)
                        (- ((monthly_pmt + tax + ins) * 12)
                         + min 750000 (purchase_price - purchase_price * down_pct) * rate * tax_rate')
                    @ [purchase_price * (1 + appreciation) ^ nat years
                       - Remaining_Balance (schedule ! nat (years * 12 - 1))
                       - calculate_reet (purchase_price * (1 + appreciation) ^ nat years)])"
    if b: "simulate_home_ownership purchase_price equity existing_mortgage existing_rate existing_term
       rate term_years tax ins down_pct appreciation tax_rate' years = Inr cfs'"
  proof -
    from buy_Inr [OF b] obtain p x where
      r: "1 \<le> years" "years \<le> term_years" and
      c: "cfs' = (equity - purchase_price * down_pct - purchase_price * (15 / 1000)
                      - calculate_reet purchase_price)
                   # replicate (nat years)
                       (- ((p + tax + ins) * 12)
                        + min 750000 (purchase_price - purchase_price * down_pct) * rate * tax_rate')
                   @ [x]"
      by blast
    have len: "int (length cfs') = years + 2" unfolding c using r by simp
    have first: "cfs' ! 0 = equity - purchase_price * down_pct - purchase_price * (15 / 1000)
                        - calculate_reet purchase_price"
      unfolding c by simp
    show ?thesis using len first r buy_value [OF b] by blast
  qed
  have pos: "(\<exists>cfs. simulate_stay_full home_value mortgage_balance rate term_years annual_tax
                   monthly_ins appreciation_rate tax_rate years = Inr cfs)
          \<and> (\<exists>cfs. simulate_home_ownership purchase_price equity existing_mortgage existing_rate
                   existing_term rate term_years tax ins down_pct appreciation tax_rate' years
                 = Inr cfs)"
    if a: "0 < rate \<and> 1 \<le> years \<and> years \<le> term_years"
  proof -
    have "1 \<le> years \<and> years \<le> term_years \<and> rate \<noteq> 0 \<and> rate \<noteq> - 12 \<and> rate \<noteq> - 24"
      using a by simp
    then show ?thesis
      unfolding stay_returns_iff buy_returns_iff by blast
  qed
  show ?thesis
    using stay buy pos
    by (intro conjI impI stay_returns_iff buy_returns_iff) blast+
qed

theorem simulators_length_witness:
  "(\<exists>cfs. simulate_stay_full 1000000 400000 (475 / 10000) 24 8800 800 (4 / 100) (35 / 100) 10
            = Inr cfs
         \<and> int (length cfs) = 10 + 2 \<and> cfs ! 0 = - 600000)
 \<and> (\<exists>cfs. simulate_home_ownership 2900000 600000 400000 (475 / 10000) 24 (475 / 10000) 24
              1993 1078 (2 / 10) (4 / 100) (35 / 100) 10 = Inr cfs
         \<and> int (length cfs) = 10 + 2)"
proof -
  note t = simulators_length [where rate = "475 / 10000" and term_years = 24 and years = 10
      and home_value = 1000000 and mortgage_balance = 400000 and annual_tax = 8800
      and monthly_ins = 800 and appreciation_rate = "4 / 100" and tax_rate = "35 / 100"
      and purchase_price = 2900000 and equity = 600000 and existing_mortgage = 400000
      and existing_rate = "475 / 10000" and existing_term = 24 and tax = 1993 and ins = 1078
      and down_pct = "2 / 10" and appreciation = "4 / 100" and tax_rate' = "35 / 100"]
  have "(\<exists>cfs. simulate_stay_full 1000000 400000 (475 / 10000) 24 8800 800 (4 / 100) (35 / 100) 10
            = Inr cfs)
      \<and> (\<exists>cfs. simulate_home_ownership 2900000 600000 400000 (475 / 10000) 24 (475 / 10000) 24
              1993 1078 (2 / 10) (4 / 100) (35 / 100) 10 = Inr cfs)"
    using t by simp
  then obtain a b where
    a: "simulate_stay_full 1000000 400000 (475 / 10000) 24 8800 800 (4 / 100) (35 / 100) 10 = Inr a"
    and b: "simulate_home_ownership 2900000 600000 400000 (475 / 10000) 24 (475 / 10000) 24
              1993 1078 (2 / 10) (4 / 100) (35 / 100) 10 = Inr b"
    by blast
  have la: "int (length a) = 10 + 2 \<and> a ! 0 = - 600000"
    using t [where cfs = a and cfs' = b] a by simp
  have lb: "int (length b) = 10 + 2"
    using t [where cfs = a and cfs' = b] b by simp
  show ?thesis using a b la lb by blast
qed

text \<open>
  C3 as stated covers every input. With the 24 years that remain on the current mortgage
  and a holding period of 25 years, \<^verbatim>\<open>simulate_stay_full\<close> raises and returns no list.
\<close>

theorem simulate_stay_full_25_years:
  "simulate_stay_full 1000000 400000 (475 / 10000) 24 8800 800 (4 / 100) (35 / 100) 25
     = Inl IndexError"
  by (rule stay_exceeds_term [OF payment_pos_rate]) simp_all

text \<open>
  C4 (as the code has it). When the holding period exceeds the loan term (positive rate,
  term of at least one year), no row of the schedule has month \<^verbatim>\<open>years * 12\<close>, the
  selection is empty and \<^verbatim>\<open>.values[0]\<close> raises \<^verbatim>\<open>IndexError\<close> in both simulators;
  no policy resolves the lookup.
\<close>

theorem lookup_beyond_term_raises:
  assumes "0 < rate" "1 \<le> term_years" "term_years < years"
  shows "simulate_stay_full home_value mortgage_balance rate term_years annual_tax monthly_ins
           appreciation_rate tax_rate years = Inl IndexError
       \<and> simulate_home_ownership purchase_price equity existing_mortgage existing_rate
           existing_term rate term_years tax ins down_pct appreciation tax_rate' years
           = Inl IndexError"
proof -
  have t: "0 < term_years" using assms(2) by simp
  show ?thesis
    using stay_exceeds_term [OF payment_pos_rate [OF assms(1) t] assms(2,3)]
          buy_exceeds_term [OF payment_pos_rate [OF assms(1) t] assms(2,3)]
    by blast
qed

theorem lookup_beyond_term_raises_witness:
  "simulate_stay_full 1000000 400000 (475 / 10000) 24 8800 800 (4 / 100) (35 / 100) 30
     = Inl IndexError
   \<and> simulate_home_ownership 2900000 600000 400000 (475 / 10000) 24 (475 / 10000) 24
        1993 1078 (2 / 10) (4 / 100) (35 / 100) 30 = Inl IndexError"
  using lookup_beyond_term_raises [of "475 / 10000" 24 30] by simp

text \<open>
  C4 as stated says the lookup does not fail with an index error: a 15-year loan held
  for 20 years does.
\<close>

theorem simulate_home_ownership_20_years:
  "simulate_home_ownership 2900000 600000 400000 (475 / 10000) 24 (65 / 1000) 15
        1993 1078 (2 / 10) (4 / 100) (35 / 100) 20 = Inl IndexError"
  by (rule buy_exceeds_term [OF payment_pos_rate]) simp_all

text \<open>
  C7. Whenever \<^verbatim>\<open>simulate_home_ownership\<close> returns, every yearly entry, at the indices
  \<open>1..years\<close>, is the same number: the tax savings
  \<^verbatim>\<open>min(750000, loan_amount) * rate * tax_rate\<close>, computed once, minus
  \<^verbatim>\<open>(monthly_pmt + tax + ins) * 12\<close>. It returns whenever the rate is positive and
  \<open>1 \<le> years \<le> term\<close>.
\<close>

theorem buy_yearly_cash_flows:
  "(simulate_home_ownership purchase_price equity existing_mortgage existing_rate existing_term
       rate term_years tax ins down_pct appreciation tax_rate years = Inr cfs
      \<longrightarrow> (\<exists>monthly_pmt.
             calculate_mortgage_payment (purchase_price - purchase_price * down_pct) rate term_years
               = Inr monthly_pmt
           \<and> (\<forall>i \<in> {1..nat years}.
                cfs ! i = min 750000 (purchase_price - purchase_price * down_pct) * rate * tax_rate
                          - (monthly_pmt + tax + ins) * 12)))
 \<and> (0 < rate \<and> 1 \<le> years \<and> years \<le> term_years
      \<longrightarrow> (\<exists>cfs. simulate_home_ownership purchase_price equity existing_mortgage existing_rate
                   existing_term rate term_years tax ins down_pct appreciation tax_rate years
                 = Inr cfs))"
proof (intro conjI impI)
  assume "simulate_home_ownership purchase_price equity existing_mortgage existing_rate existing_term
       rate term_years tax ins down_pct appreciation tax_rate years = Inr cfs"
  from buy_Inr [OF this] obtain p x where
    p: "calculate_mortgage_payment (purchase_price - purchase_price * down_pct) rate term_years
          = Inr p" and
    c: "cfs = (equity - purchase_price * down_pct - purchase_price * (15 / 1000)
                      - calculate_reet purchase_price)
                   # replicate (nat years)
                       (- ((p + tax + ins) * 12)
                        + min 750000 (purchase_price - purchase_price * down_pct) * rate * tax_rate)
                   @ [x]"
    by blast
  have "\<forall>i \<in> {1..nat years}.
          cfs ! i = min 750000 (purchase_price - purchase_price * down_pct) * rate * tax_rate
                    - (p + tax + ins) * 12"
  proof
    fix i assume "i \<in> {1..nat years}"
    then obtain j where j: "i = Suc j" "j < nat years"
      by (cases i) auto
    show "cfs ! i = min 750000 (purchase_price - purchase_price * down_pct) * rate * tax_rate
                    - (p + tax + ins) * 12"
      unfolding c j(1) using j(2) by (simp add: nth_append)
  qed
  with p show "\<exists>monthly_pmt.
             calculate_mortgage_payment (purchase_price - purchase_price * down_pct) rate term_years
               = Inr monthly_pmt
           \<and> (\<forall>i \<in> {1..nat years}.
                cfs ! i = min 750000 (purchase_price - purchase_price * down_pct) * rate * tax_rate
                          - (monthly_pmt + tax + ins) * 12)"
    by blast
next
  assume a: "0 < rate \<and> 1 \<le> years \<and> years \<le> term_years"
  then have "0 < term_years" by simp
  with a show "\<exists>cfs. simulate_home_ownership purchase_price equity existing_mortgage existing_rate
                   existing_term rate term_years tax ins down_pct appreciation tax_rate years
                 = Inr cfs"
    by (intro buy_returns [OF payment_pos_rate]) simp_all
qed

theorem buy_yearly_cash_flows_witness:
  "\<exists>cfs monthly_pmt.
      simulate_home_ownership 2900000 600000 400000 (475 / 10000) 24 (65 / 1000) 30
        1993 1078 (2 / 10) (4 / 100) (35 / 100) 10 = Inr cfs
    \<and> calculate_mortgage_payment (2900000 - 2900000 * (2 / 10)) (65 / 1000) 30 = Inr monthly_pmt
    \<and> (\<forall>i \<in> {1..nat 10}.
          cfs ! i = min 750000 (2900000 - 2900000 * (2 / 10)) * (65 / 1000) * (35 / 100)
                    - (monthly_pmt + 1993 + 1078) * 12)"
proof -
  note t = buy_yearly_cash_flows [where rate = "65 / 1000" and term_years = 30 and years = 10
      and purchase_price = 2900000 and equity = 600000 and existing_mortgage = 400000
      and existing_rate = "475 / 10000" and existing_term = 24 and tax = 1993 and ins = 1078
      and down_pct = "2 / 10" and appreciation = "4 / 100" and tax_rate = "35 / 100"]
  have "\<exists>cfs. simulate_home_ownership 2900000 600000 400000 (475 / 10000) 24 (65 / 1000) 30
        1993 1078 (2 / 10) (4 / 100) (35 / 100) 10 = Inr cfs"
    using t by simp
  then obtain a where
    a: "simulate_home_ownership 2900000 600000 400000 (475 / 10000) 24 (65 / 1000) 30
        1993 1078 (2 / 10) (4 / 100) (35 / 100) 10 = Inr a"
    by blast
  have "\<exists>monthly_pmt.
      calculate_mortgage_payment (2900000 - 2900000 * (2 / 10)) (65 / 1000) 30 = Inr monthly_pmt
    \<and> (\<forall>i \<in> {1..nat 10}.
          a ! i = min 750000 (2900000 - 2900000 * (2 / 10)) * (65 / 1000) * (35 / 100)
                    - (monthly_pmt + 1993 + 1078) * 12)"
    using t [where cfs = a] a by blast
  then show ?thesis using a by blast
qed

text \<open>
  C10. \<^verbatim>\<open>simulate_home_ownership\<close> never reads \<^verbatim>\<open>existing_mortgage\<close>,
  \<^verbatim>\<open>existing_rate\<close> or \<^verbatim>\<open>existing_term\<close>: two calls that differ only there return the
  same cash flows, or raise the same error.
\<close>

theorem simulate_home_ownership_ignores_existing:
  "simulate_home_ownership purchase_price equity existing_mortgage existing_rate existing_term
       rate term_years tax ins down_pct appreciation tax_rate years =
   simulate_home_ownership purchase_price equity existing_mortgage' existing_rate' existing_term'
       rate term_years tax ins down_pct appreciation tax_rate years"
  by (simp add: simulate_home_ownership_def)

section \<open>Invalid inputs\<close>

lemma schedule_negative_term:
  assumes "0 < annual_rate" "term_years < 0"
  shows "calculate_mortgage_schedule loan_amount annual_rate term_years = Inr []"
proof -
  have "1 < (1 + annual_rate / 12) ^ nat (- (term_years * 12))"
    using assms by (intro growth_gt_one) auto
  then have "1 - (1 + annual_rate / 12) ^ nat (- (term_years * 12)) \<noteq> 0"
    by simp
  then have "\<exists>p. calculate_mortgage_payment loan_amount annual_rate term_years = Inr p"
    using assms(2) by (simp add: calculate_mortgage_payment_def py_pow_def py_div_def Let_def)
  then obtain p where "calculate_mortgage_payment loan_amount annual_rate term_years = Inr p"
    by blast
  then show ?thesis
    using assms(2) by (simp add: schedule_of_payment)
qed

lemma reet_negative: "p < 0 \<Longrightarrow> calculate_reet p = py_round2 (p * (11 / 1000))"
  by (simp add: calculate_reet_def reet_closed)

text \<open>
  C9 (as the code has it). Nothing validates the inputs. A negative price is taxed in the
  first bracket: \<^verbatim>\<open>calculate_reet\<close> returns
  \<^verbatim>\<open>round(price * 0.011, 2)\<close>. A negative term with a positive rate gives an empty
  schedule. Only zero or negative holding years end in an error, in both simulators:
  the balance lookup finds no row (or an earlier step has already failed).
\<close>

theorem invalid_inputs:
  "(purchase_price < 0 \<longrightarrow> calculate_reet purchase_price = py_round2 (purchase_price * (11 / 1000)))
 \<and> (0 < annual_rate \<and> term_years < 0
      \<longrightarrow> calculate_mortgage_schedule loan_amount annual_rate term_years = Inr [])
 \<and> (years \<le> 0
      \<longrightarrow> (\<exists>e. simulate_stay_full home_value mortgage_balance rate term_remaining annual_tax
                 monthly_ins appreciation_rate tax_rate years = Inl e)
          \<and> (\<exists>e. simulate_home_ownership price equity existing_mortgage existing_rate
                 existing_term rate' term_years' tax ins down_pct appreciation tax_rate' years
               = Inl e))"
proof (intro conjI impI)
  assume "purchase_price < 0"
  then show "calculate_reet purchase_price = py_round2 (purchase_price * (11 / 1000))"
    by (rule reet_negative)
next
  assume "0 < annual_rate \<and> term_years < 0"
  then show "calculate_mortgage_schedule loan_amount annual_rate term_years = Inr []"
    by (intro schedule_negative_term) simp_all
next
  assume "years \<le> 0"
  then have y: "years < 1 \<or> term_remaining < years" by simp
  then show "\<exists>e. simulate_stay_full home_value mortgage_balance rate term_remaining annual_tax
                 monthly_ins appreciation_rate tax_rate years = Inl e"
    by (rule stay_fails)
next
  assume "years \<le> 0"
  then have y: "years < 1 \<or> term_years' < years" by simp
  then show "\<exists>e. simulate_home_ownership price equity existing_mortgage existing_rate
                 existing_term rate' term_years' tax ins down_pct appreciation tax_rate' years
               = Inl e"
    by (rule buy_fails)
qed

theorem invalid_inputs_witness:
  "calculate_reet (- 100) = py_round2 (- 100 * (11 / 1000))
 \<and> calculate_mortgage_schedule 400000 (475 / 10000) (- 24) = Inr []
 \<and> (\<exists>e. simulate_stay_full 1000000 400000 (475 / 10000) 24 8800 800 (4 / 100) (35 / 100) 0
          = Inl e)
 \<and> (\<exists>e. simulate_home_ownership 2900000 600000 400000 (475 / 10000) 24 (65 / 1000) 30
          1993 1078 (2 / 10) (4 / 100) (35 / 100) 0 = Inl e)"
  using invalid_inputs [where purchase_price = "- 100" and annual_rate = "475 / 10000"
      and term_years = "- 24" and loan_amount = 400000 and years = 0
      and home_value = 1000000 and mortgage_balance = 400000 and rate = "475 / 10000"
      and term_remaining = 24 and annual_tax = 8800 and monthly_ins = 800
      and appreciation_rate = "4 / 100" and tax_rate = "35 / 100"
      and price = 2900000 and equity = 600000 and existing_mortgage = 400000
      and existing_rate = "475 / 10000" and existing_term = 24 and rate' = "65 / 1000"
      and term_years' = 30 and tax = 1993 and ins = 1078 and down_pct = "2 / 10"
      and appreciation = "4 / 100" and tax_rate' = "35 / 100"]
  by simp

text \<open>
  C9 as stated has every invalid input rejected: a price of \<open>-100\<close> is not, the tax
  returned is \<open>-1.10\<close>.
\<close>

theorem calculate_reet_negative_price: "calculate_reet (- 100) = - 11 / 10"
  by (simp add: calculate_reet_def brackets_def py_round2_def round_half_even_def Let_def)

end
